theory Spec2Isabelle
  imports Main "HOL-Library.Sublist"
begin

unbundle bit_operations_syntax

section \<open>Values, exceptions and the Python built-ins the coordinator calls\<close>

text \<open>
  The coordinator of \<^verbatim>\<open>coordinator.py\<close> works on the JSON the alarm panel's cloud
  service sends. A field of a device record or of a history entry is a JSON scalar:
  \<^verbatim>\<open>null\<close>, a boolean, an integer or a string. JSON floating-point numbers, arrays and
  objects as field values are outside the model. Strings are lists of ASCII characters.
\<close>

datatype json = JNone | JBool bool | JInt int | JStr string

text \<open>
  The exceptions that can travel through the coordinator: the client library's
  \<^verbatim>\<open>AuthenticationError\<close>, any other exception class of the client library or of the
  network layer (by name), the two kinds of the host framework, and Python's own.
\<close>

datatype error =
    AuthenticationError
  | ClientError string
  | ConfigEntryAuthFailed
  | UpdateFailed
  | KeyError
  | ValueError
  | TypeError
  | OverflowError

text \<open>A statement that may raise, followed by the rest of the block.\<close>

definition then_do :: "error + 'a \<Rightarrow> ('a \<Rightarrow> error + 'b) \<Rightarrow> error + 'b" where
  "then_do m f = (case m of Inl e \<Rightarrow> Inl e | Inr x \<Rightarrow> f x)"

text \<open>\<^verbatim>\<open>d[k]\<close> on a dict: \<^verbatim>\<open>KeyError\<close> when the key is missing.\<close>

definition getitem :: "('k \<rightharpoonup> 'v) \<Rightarrow> 'k \<Rightarrow> error + 'v" where
  "getitem d k = (case d k of None \<Rightarrow> Inl KeyError | Some v \<Rightarrow> Inr v)"

text \<open>Truth value of an object, and \<^verbatim>\<open>x or y\<close>.\<close>

fun py_bool :: "json \<Rightarrow> bool" where
  "py_bool JNone = False"
| "py_bool (JBool b) = b"
| "py_bool (JInt i) = (i \<noteq> 0)"
| "py_bool (JStr s) = (s \<noteq> [])"

definition py_or :: "json \<Rightarrow> json \<Rightarrow> json" where
  "py_or x y = (if py_bool x then x else y)"

text \<open>\<^verbatim>\<open>x == y\<close>: a boolean equals the integer 0 or 1 it stands for.\<close>

fun py_eq :: "json \<Rightarrow> json \<Rightarrow> bool" where
  "py_eq (JBool b) (JInt i) = (i = (if b then 1 else 0))"
| "py_eq (JInt i) (JBool b) = (i = (if b then 1 else 0))"
| "py_eq x y = (x = y)"

text \<open>\<^verbatim>\<open>str(x)\<close>.\<close>

definition digit_char :: "nat \<Rightarrow> char" where
  "digit_char n = char_of (48 + n)"

fun str_nat :: "nat \<Rightarrow> string" where
  "str_nat n = (if n < 10 then [digit_char n] else str_nat (n div 10) @ [digit_char (n mod 10)])"

declare str_nat.simps [simp del]

definition str_int :: "int \<Rightarrow> string" where
  "str_int i = (if i < 0 then CHR ''-'' # str_nat (nat (- i)) else str_nat (nat i))"

fun py_str :: "json \<Rightarrow> string" where
  "py_str JNone = ''None''"
| "py_str (JBool b) = (if b then ''True'' else ''False'')"
| "py_str (JInt i) = str_int i"
| "py_str (JStr s) = s"

text \<open>
  \<^verbatim>\<open>needle in state\<close>: on a string, the substring test; \<^verbatim>\<open>None\<close>, booleans and
  integers are not iterable.
\<close>

fun str_contains :: "string \<Rightarrow> string \<Rightarrow> bool" where
  "str_contains n [] = (n = [])"
| "str_contains n (c # cs) = (prefix n (c # cs) \<or> str_contains n cs)"

fun py_in :: "string \<Rightarrow> json \<Rightarrow> error + bool" where
  "py_in n (JStr s) = Inr (str_contains n s)"
| "py_in n v = Inl TypeError"

text \<open>
  \<^verbatim>\<open>int(s, 16)\<close> as CPython reads it: white space around the number (the blank and
  the characters 9 to 13), a sign, the
  prefix \<^verbatim>\<open>0x\<close> or \<^verbatim>\<open>0X\<close> (one underscore may follow it), then hexadecimal digits
  with single underscores between them; anything else is a \<^verbatim>\<open>ValueError\<close>.
\<close>

definition is_space :: "char \<Rightarrow> bool" where
  "is_space c = (let n = (of_char c :: nat) in (9 \<le> n \<and> n \<le> 13) \<or> n = 32)"

definition hex_digit :: "char \<Rightarrow> nat option" where
  "hex_digit c =
     (let n = (of_char c :: nat) in
      if 48 \<le> n \<and> n \<le> 57 then Some (n - 48)
      else if 97 \<le> n \<and> n \<le> 102 then Some (n - 87)
      else if 65 \<le> n \<and> n \<le> 70 then Some (n - 55)
      else None)"

definition is_hex :: "char \<Rightarrow> bool" where
  "is_hex c = (hex_digit c \<noteq> None)"

definition hex_value :: "string \<Rightarrow> int" where
  "hex_value ds = foldl (\<lambda>a c. 16 * a + int (the (hex_digit c))) 0 ds"

fun double_underscore :: "string \<Rightarrow> bool" where
  "double_underscore (c # d # cs) =
     ((c = CHR ''_'' \<and> d = CHR ''_'') \<or> double_underscore (d # cs))"
| "double_underscore cs = False"

definition skip_sign :: "string \<Rightarrow> string" where
  "skip_sign s =
     (case s of c # cs \<Rightarrow> if c = CHR ''+'' \<or> c = CHR ''-'' then cs else s | [] \<Rightarrow> s)"

definition skip_0x :: "string \<Rightarrow> string" where
  "skip_0x s =
     (case s of
        c # d # cs \<Rightarrow>
          if c = CHR ''0'' \<and> (d = CHR ''x'' \<or> d = CHR ''X'')
          then (case cs of u # us \<Rightarrow> if u = CHR ''_'' then us else cs | [] \<Rightarrow> cs)
          else s
      | _ \<Rightarrow> s)"

definition py_int16 :: "string \<Rightarrow> error + int" where
  "py_int16 s =
     (let s1 = dropWhile is_space s;
          negative = (case s1 of c # cs \<Rightarrow> c = CHR ''-'' | [] \<Rightarrow> False);
          s2 = skip_0x (skip_sign s1);
          body = takeWhile (\<lambda>c. is_hex c \<or> c = CHR ''_'') s2;
          rest = dropWhile (\<lambda>c. is_hex c \<or> c = CHR ''_'') s2;
          ds = filter is_hex body
      in if (case s2 of c # cs \<Rightarrow> c = CHR ''_'' | [] \<Rightarrow> False) then Inl ValueError
         else if double_underscore body then Inl ValueError
         else if body \<noteq> [] \<and> last body = CHR ''_'' then Inl ValueError
         else if ds = [] then Inl ValueError
         else if dropWhile is_space rest \<noteq> [] then Inl ValueError
         else Inr (if negative then - hex_value ds else hex_value ds))"

text \<open>
  \<^verbatim>\<open>float(x)\<close> and \<^verbatim>\<open>datetime.strptime(s, format)\<close> are library code whose
  results (an IEEE double, a calendar date) are not computed here: the coordinator
  takes them as parameters, and every theorem holds whatever they do. A parsed
  \<^verbatim>\<open>datetime\<close> is the number of seconds since 0001-01-01 00:00:00, the earliest one;
  both formats of the coordinator stop at the second.
\<close>

record 'f builtins =
  py_float :: "json \<Rightarrow> error + 'f"
  strptime :: "string \<Rightarrow> string \<Rightarrow> error + int"

definition py_strptime :: "'f builtins \<Rightarrow> json \<Rightarrow> string \<Rightarrow> error + int" where
  "py_strptime B v fmt = (case v of JStr s \<Rightarrow> strptime B s fmt | _ \<Rightarrow> Inl TypeError)"

text \<open>
  \<^verbatim>\<open>t - timedelta(minutes=m)\<close>: an \<^verbatim>\<open>OverflowError\<close> when the result leaves the
  range of \<^verbatim>\<open>datetime\<close>, which ends with 9999-12-31 23:59:59.
\<close>

definition datetime_max :: int where
  "datetime_max = 3652059 * 86400 - 1"

definition datetime_sub_minutes :: "int \<Rightarrow> int \<Rightarrow> error + int" where
  "datetime_sub_minutes t m =
     (let r = t - 60 * m in if 0 \<le> r \<and> r \<le> datetime_max then Inr r else Inl OverflowError)"

section \<open>Devices, the raw bundle and the snapshot\<close>

text \<open>
  A device record is a dict. The normalizer reads the keys the service sent and writes
  the two keys \<^verbatim>\<open>_state\<close> and \<^verbatim>\<open>_state2\<close>, which may come to hold a float. The two
  written keys are kept apart from the others: \<open>d_fields\<close> is the dict without them,
  \<open>d_state\<close> and \<open>d_state2\<close> are their values (\<open>None\<close> when the key is missing).
  Each record of the device list is an object of its own, as a JSON decoder makes them,
  so assigning to one changes no other.
\<close>

datatype 'f pyval = Json json | Float 'f

abbreviation Str :: "string \<Rightarrow> 'f pyval" where
  "Str s \<equiv> Json (JStr s)"

record 'f device =
  d_fields :: "string \<rightharpoonup> json"
  d_state :: "'f pyval option"
  d_state2 :: "'f pyval option"

type_synonym hist_item = "string \<rightharpoonup> json"

text \<open>
  The bundle \<^verbatim>\<open>get_updates\<close> returns, a dict with exactly these keys. The arm
  status, the status, the online flag and the panel information are passed through
  unread.
\<close>

record ('f, 'a) updates =
  arm_status :: 'a
  cycle :: "string \<rightharpoonup> 'f device list"
  status :: 'a
  online :: 'a
  panel_info :: 'a
  history :: "hist_item list"
  update_timestamp :: int

text \<open>
  A dict built by a comprehension: the keys in insertion order, a key found by
  \<^verbatim>\<open>==\<close>; assigning to a key that is there keeps the key and replaces the value.
\<close>

type_synonym 'v pydict = "(json \<times> 'v) list"

fun dict_setitem :: "'v pydict \<Rightarrow> json \<Rightarrow> 'v \<Rightarrow> 'v pydict" where
  "dict_setitem [] k v = [(k, v)]"
| "dict_setitem ((k', v') # m) k v =
     (if py_eq k' k then (k', v) # m else (k', v') # dict_setitem m k v)"

fun dict_getitem :: "'v pydict \<Rightarrow> json \<Rightarrow> error + 'v" where
  "dict_getitem [] k = Inl KeyError"
| "dict_getitem ((k', v') # m) k = (if py_eq k' k then Inr v' else dict_getitem m k)"

text \<open>The dict \<^verbatim>\<open>_async_update_data\<close> returns.\<close>

record ('f, 'a) snapshot =
  s_alarm :: 'a
  s_locks :: "'f device list"
  s_door_windows :: "'f device list"
  s_temperature_sensors :: "'f device list"
  s_smoke_sensors :: "'f device list"
  s_status :: 'a
  s_online :: 'a
  s_door_sensor_map :: "'f pyval pydict"
  s_lock_map :: "'f pyval pydict"
  s_temperature_map :: "'f pyval pydict"
  s_smoke_map :: "'f pyval pydict"
  s_panel_info :: 'a

section \<open>The history scan\<close>

text \<open>
  One pass of the loop of \<^verbatim>\<open>device_on_in_updates_history\<close> over a history entry:
  \<open>Break b\<close> leaves the loop with \<^verbatim>\<open>exists = b\<close> (the variable is \<^verbatim>\<open>False\<close> until
  the pass that sets it and breaks), \<open>Continue\<close> goes to the next entry.
\<close>

datatype verdict = Break bool | Continue

definition history_body ::
  "'f builtins \<Rightarrow> 'f device \<Rightarrow> json \<Rightarrow> json \<Rightarrow> int \<Rightarrow> hist_item \<Rightarrow> error + verdict" where
  "history_body B device enabled_type disabled_type accepted_timestamp hist_item =
     then_do (getitem hist_item ''time'') (\<lambda>hist_time.
     then_do (py_strptime B hist_time ''%Y/%m/%d %H:%M:%S'') (\<lambda>hist_date.
     if hist_date < accepted_timestamp then Inr (Break False)
     else
       then_do (getitem hist_item ''type'') (\<lambda>hist_type.
       then_do (getitem (d_fields device) ''type'') (\<lambda>device_type.
       if \<not> py_eq hist_type device_type then Inr Continue
       else
         then_do (getitem hist_item ''area'') (\<lambda>hist_area.
         then_do (getitem (d_fields device) ''area'') (\<lambda>device_area.
         if py_str hist_area \<noteq> py_str device_area then Inr Continue
         else
           then_do (getitem hist_item ''event_type'') (\<lambda>event_type.
           if py_eq (JStr (py_str event_type)) disabled_type then Inr (Break False)
           else if py_eq (JStr (py_str event_type)) enabled_type then Inr (Break True)
           else Inr Continue)))))))"

fun history_loop ::
  "'f builtins \<Rightarrow> 'f device \<Rightarrow> json \<Rightarrow> json \<Rightarrow> int \<Rightarrow> hist_item list \<Rightarrow> error + bool" where
  "history_loop B device enabled_type disabled_type accepted_timestamp [] = Inr False"
| "history_loop B device enabled_type disabled_type accepted_timestamp (hist_item # rest) =
     (case history_body B device enabled_type disabled_type accepted_timestamp hist_item of
        Inl e \<Rightarrow> Inl e
      | Inr (Break b) \<Rightarrow> Inr b
      | Inr Continue \<Rightarrow>
          history_loop B device enabled_type disabled_type accepted_timestamp rest)"

definition device_on_in_updates_history ::
  "'f builtins \<Rightarrow> 'f device \<Rightarrow> ('f, 'a) updates \<Rightarrow> json \<Rightarrow> json \<Rightarrow> int \<Rightarrow> error + bool" where
  "device_on_in_updates_history B device updates enabled_type disabled_type minutes =
     then_do (datetime_sub_minutes (update_timestamp updates) minutes) (\<lambda>accepted_timestamp.
     history_loop B device enabled_type disabled_type accepted_timestamp (history updates))"

section \<open>The normalizer\<close>

text \<open>
  The four lists the loop of \<^verbatim>\<open>_async_update_data\<close> appends to, in the order
  \<^verbatim>\<open>locks\<close>, \<^verbatim>\<open>door_windows\<close>, \<^verbatim>\<open>sensors_temperature\<close>, \<^verbatim>\<open>sensors_smoke\<close>.
  Each branch of the loop assigns to the device and appends it to one list; the
  functions below return the device as assigned together with the lists.
\<close>

type_synonym 'f lists = "'f device list \<times> 'f device list \<times> 'f device list \<times> 'f device list"

definition append_lock :: "'f device \<Rightarrow> 'f lists \<Rightarrow> 'f device \<times> 'f lists" where
  "append_lock device acc =
     (case acc of (locks, door_windows, sensors_temperature, sensors_smoke) \<Rightarrow>
        (device, (locks @ [device], door_windows, sensors_temperature, sensors_smoke)))"

definition append_door_window :: "'f device \<Rightarrow> 'f lists \<Rightarrow> 'f device \<times> 'f lists" where
  "append_door_window device acc =
     (case acc of (locks, door_windows, sensors_temperature, sensors_smoke) \<Rightarrow>
        (device, (locks, door_windows @ [device], sensors_temperature, sensors_smoke)))"

definition append_temperature :: "'f device \<Rightarrow> 'f lists \<Rightarrow> 'f device \<times> 'f lists" where
  "append_temperature device acc =
     (case acc of (locks, door_windows, sensors_temperature, sensors_smoke) \<Rightarrow>
        (device, (locks, door_windows, sensors_temperature @ [device], sensors_smoke)))"

definition append_smoke :: "'f device \<Rightarrow> 'f lists \<Rightarrow> 'f device \<times> 'f lists" where
  "append_smoke device acc =
     (case acc of (locks, door_windows, sensors_temperature, sensors_smoke) \<Rightarrow>
        (device, (locks, door_windows, sensors_temperature, sensors_smoke @ [device])))"

text \<open>
  \<^verbatim>\<open>"device_status.lock" in state or "device_status.unlock" in state\<close>, and the guard
  \<^verbatim>\<open>lock_status and (...)\<close> in front of it, which reads the status flags only when the
  bit mask is not zero.
\<close>

definition lock_marker :: "json \<Rightarrow> error + bool" where
  "lock_marker state =
     then_do (py_in ''device_status.lock'' state) (\<lambda>l.
     if l then Inr True else py_in ''device_status.unlock'' state)"

definition nonzero_and_marker :: "int \<Rightarrow> json \<Rightarrow> error + bool" where
  "nonzero_and_marker lock_status state =
     (if lock_status \<noteq> 0 then lock_marker state else Inr False)"

text \<open>The branch of a device of type \<^verbatim>\<open>device_type.door_lock\<close>.\<close>

definition door_lock :: "'f device \<Rightarrow> json \<Rightarrow> 'f lists \<Rightarrow> error + 'f device \<times> 'f lists" where
  "door_lock device state acc =
     then_do (getitem (d_fields device) ''minigw_lock_status'') (\<lambda>lock_status_str.
     then_do (py_int16 (py_str (py_or lock_status_str (JInt 0)))) (\<lambda>lock_status.
     let closed = (lock_status AND 16 = 16);
         locked = (lock_status AND 1 = 1)
     in
     then_do (if lock_status = 0 then py_in ''device_status.lock'' state else Inr False) (\<lambda>c1.
     if c1 then
       Inr (append_lock
         (device\<lparr>d_state := Some (Str ''locked''), d_state2 := Some (Str ''unknown'')\<rparr>) acc)
     else
     then_do (if lock_status = 0 then py_in ''device_status.unlock'' state else Inr False) (\<lambda>c2.
     if c2 then
       Inr (append_lock
         (device\<lparr>d_state := Some (Str ''unlocked''), d_state2 := Some (Str ''unknown'')\<rparr>) acc)
     else
     then_do (nonzero_and_marker lock_status state) (\<lambda>c3.
     if c3 \<and> closed \<and> locked then
       Inr (append_lock
         (device\<lparr>d_state := Some (Str ''locked''), d_state2 := Some (Str ''closed'')\<rparr>) acc)
     else
     then_do (nonzero_and_marker lock_status state) (\<lambda>c4.
     if c4 \<and> closed \<and> \<not> locked then
       Inr (append_lock
         (device\<lparr>d_state := Some (Str ''unlocked''), d_state2 := Some (Str ''closed'')\<rparr>) acc)
     else
     then_do (nonzero_and_marker lock_status state) (\<lambda>c5.
     if c5 \<and> \<not> closed then
       Inr (append_lock
         (device\<lparr>d_state := Some (Str ''unlocked''), d_state2 := Some (Str ''open'')\<rparr>) acc)
     else
       Inr (append_lock (device\<lparr>d_state := Some (Str ''unavailable'')\<rparr>) acc))))))))"

text \<open>The branch of a device of type \<^verbatim>\<open>device_type.door_contact\<close>.\<close>

definition door_contact :: "'f device \<Rightarrow> json \<Rightarrow> 'f lists \<Rightarrow> error + 'f device \<times> 'f lists" where
  "door_contact device state acc =
     then_do (py_in ''device_status.dc_close'' state) (\<lambda>c.
     if c then Inr (append_door_window (device\<lparr>d_state := Some (Str ''closed'')\<rparr>) acc)
     else
     then_do (py_in ''device_status.dc_open'' state) (\<lambda>opn.
     if opn then Inr (append_door_window (device\<lparr>d_state := Some (Str ''open'')\<rparr>) acc)
     else Inr (append_door_window (device\<lparr>d_state := Some (Str ''unavailable'')\<rparr>) acc)))"

text \<open>The branch of a device of type \<^verbatim>\<open>device_type.temperature_sensor\<close>.\<close>

definition temperature_sensor ::
  "'f builtins \<Rightarrow> 'f device \<Rightarrow> 'f lists \<Rightarrow> error + 'f device \<times> 'f lists" where
  "temperature_sensor B device acc =
     then_do (getitem (d_fields device) ''status_temp'') (\<lambda>state.
     then_do (py_float B state) (\<lambda>f.
     Inr (append_temperature (device\<lparr>d_state := Some (Float f)\<rparr>) acc)))"

text \<open>
  The branch of a device of type \<^verbatim>\<open>device_type.smoke_detector\<close>. The two event codes
  \<^verbatim>\<open>YALE_EVENT_TYPE_SMOKE_ON\<close> and \<^verbatim>\<open>YALE_EVENT_TYPE_SMOKE_OFF\<close> are constants of
  \<^verbatim>\<open>const.py\<close>, which is not among the sources: they are the parameters \<open>smoke_on\<close>
  and \<open>smoke_off\<close>.
\<close>

definition smoke_detector ::
  "'f builtins \<Rightarrow> json \<Rightarrow> json \<Rightarrow> ('f, 'a) updates \<Rightarrow> 'f device \<Rightarrow> 'f lists \<Rightarrow>
     error + 'f device \<times> 'f lists" where
  "smoke_detector B smoke_on smoke_off updates device acc =
     then_do (device_on_in_updates_history B device updates smoke_on smoke_off 3) (\<lambda>active.
     let state = (if active then ''on'' else ''off'')
     in Inr (append_smoke (device\<lparr>d_state := Some (Str state)\<rparr>) acc))"

text \<open>One pass of the loop over \<^verbatim>\<open>updates["cycle"]["device_status"]\<close>.\<close>

definition loop_body ::
  "'f builtins \<Rightarrow> json \<Rightarrow> json \<Rightarrow> ('f, 'a) updates \<Rightarrow> 'f device \<Rightarrow> 'f lists \<Rightarrow>
     error + 'f device \<times> 'f lists" where
  "loop_body B smoke_on smoke_off updates device acc =
     then_do (getitem (d_fields device) ''status1'') (\<lambda>state.
     then_do (getitem (d_fields device) ''type'') (\<lambda>device_type.
     if py_eq device_type (JStr ''device_type.door_lock'') then door_lock device state acc
     else if py_eq device_type (JStr ''device_type.door_contact'') then
       door_contact device state acc
     else if py_eq device_type (JStr ''device_type.temperature_sensor'') then
       temperature_sensor B device acc
     else if py_eq device_type (JStr ''device_type.smoke_detector'') then
       smoke_detector B smoke_on smoke_off updates device acc
     else Inr (device, acc)))"

text \<open>
  The loop: the devices as the loop leaves them, and the four lists. An exception
  leaves the function, and nothing of the pass is returned.
\<close>

fun for_devices ::
  "'f builtins \<Rightarrow> json \<Rightarrow> json \<Rightarrow> ('f, 'a) updates \<Rightarrow> 'f device list \<Rightarrow> 'f lists \<Rightarrow>
     error + 'f device list \<times> 'f lists" where
  "for_devices B smoke_on smoke_off updates [] acc = Inr ([], acc)"
| "for_devices B smoke_on smoke_off updates (device # rest) acc =
     (case loop_body B smoke_on smoke_off updates device acc of
        Inl e \<Rightarrow> Inl e
      | Inr (device', acc') \<Rightarrow>
          (case for_devices B smoke_on smoke_off updates rest acc' of
             Inl e \<Rightarrow> Inl e
           | Inr (rest', acc'') \<Rightarrow> Inr (device' # rest', acc'')))"

text \<open>\<^verbatim>\<open>{d["address"]: d["_state"] for d in devices}\<close>, started from the dict \<open>m\<close>.\<close>

fun state_map_from :: "'f pyval pydict \<Rightarrow> 'f device list \<Rightarrow> error + 'f pyval pydict" where
  "state_map_from m [] = Inr m"
| "state_map_from m (d # ds) =
     (case getitem (d_fields d) ''address'' of
        Inl e \<Rightarrow> Inl e
      | Inr address \<Rightarrow>
          (case d_state d of
             None \<Rightarrow> Inl KeyError
           | Some state \<Rightarrow> state_map_from (dict_setitem m address state) ds))"

definition state_map :: "'f device list \<Rightarrow> error + 'f pyval pydict" where
  "state_map devices = state_map_from [] devices"

text \<open>
  \<^verbatim>\<open>_async_update_data\<close> after the fetch: the snapshot, and the bundle as the loop
  leaves it, its device records assigned to.
\<close>

definition normalize ::
  "'f builtins \<Rightarrow> json \<Rightarrow> json \<Rightarrow> ('f, 'a) updates \<Rightarrow>
     error + ('f, 'a) snapshot \<times> ('f, 'a) updates" where
  "normalize B smoke_on smoke_off updates =
     then_do (getitem (cycle updates) ''device_status'') (\<lambda>devices.
     then_do (for_devices B smoke_on smoke_off updates devices ([], [], [], [])) (\<lambda>(devices', acc).
     case acc of (locks, door_windows, sensors_temperature, sensors_smoke) \<Rightarrow>
     then_do (state_map door_windows) (\<lambda>door_sensor_map.
     then_do (state_map locks) (\<lambda>lock_map.
     then_do (state_map sensors_temperature) (\<lambda>temperature_map.
     then_do (state_map sensors_smoke) (\<lambda>smoke_map.
     Inr (\<lparr>s_alarm = arm_status updates,
           s_locks = locks,
           s_door_windows = door_windows,
           s_temperature_sensors = sensors_temperature,
           s_smoke_sensors = sensors_smoke,
           s_status = status updates,
           s_online = online updates,
           s_door_sensor_map = door_sensor_map,
           s_lock_map = lock_map,
           s_temperature_map = temperature_map,
           s_smoke_map = smoke_map,
           s_panel_info = panel_info updates\<rparr>,
          updates\<lparr>cycle := (cycle updates)(''device_status'' \<mapsto> devices')\<rparr>)))))))"

section \<open>The fetch step\<close>

text \<open>
  The client library is outside the repository: its constructor and the two calls
  \<^verbatim>\<open>get_armed_status\<close> and \<^verbatim>\<open>get_all\<close> return or raise, as the record \<open>api\<close> says
  for the execution at hand. \<open>'c\<close> is the type of the session object. The dict
  \<^verbatim>\<open>get_all\<close> returns has a section under each of six keys; a key may be missing.
\<close>

record ('f, 'a) data =
  CYCLE :: "(string \<rightharpoonup> 'f device list) option"
  HISTORY :: "hist_item list option"
  STATUS :: "'a option"
  ONLINE :: "'a option"
  PANEL_INFO :: "'a option"
  AUTH_CHECK :: "(string \<rightharpoonup> json) option"

record ('c, 'f, 'a) yale_api =
  YaleSmartAlarmClient :: "json \<Rightarrow> json \<Rightarrow> error + 'c"
  get_armed_status :: "'c \<Rightarrow> error + 'a"
  get_all :: "'c \<Rightarrow> error + ('f, 'a) data"

definition section_of :: "'v option \<Rightarrow> error + 'v" where
  "section_of v = (case v of None \<Rightarrow> Inl KeyError | Some x \<Rightarrow> Inr x)"

definition CONF_USERNAME :: string where
  "CONF_USERNAME = ''username''"

definition CONF_PASSWORD :: string where
  "CONF_PASSWORD = ''password''"

text \<open>
  The two \<^verbatim>\<open>except\<close> clauses that close both \<^verbatim>\<open>try\<close> blocks of \<^verbatim>\<open>get_updates\<close>.
  The tuple \<^verbatim>\<open>YALE_BASE_ERRORS\<close> is a constant of \<^verbatim>\<open>const.py\<close>, which is not among
  the sources: the parameter \<open>base_errors\<close> says which exceptions are instances of
  its classes. An exception neither clause catches leaves the block as it is.
\<close>

definition try_except :: "(error \<Rightarrow> bool) \<Rightarrow> error + 'a \<Rightarrow> error + 'a" where
  "try_except base_errors block =
     (case block of
        Inl e \<Rightarrow>
          if e = AuthenticationError then Inl ConfigEntryAuthFailed
          else if base_errors e then Inl UpdateFailed
          else Inl e
      | Inr x \<Rightarrow> Inr x)"

text \<open>
  \<^verbatim>\<open>get_updates\<close>: its result, and the session \<^verbatim>\<open>self.yale\<close> after it
  (\<open>None\<close> before the first successful construction).
\<close>

definition get_updates ::
  "'f builtins \<Rightarrow> (error \<Rightarrow> bool) \<Rightarrow> ('c, 'f, 'a) yale_api \<Rightarrow> (string \<rightharpoonup> json) \<Rightarrow> 'c option \<Rightarrow>
     (error + ('f, 'a) updates) \<times> 'c option" where
  "get_updates B base_errors api entry_data yale =
     (case (case yale of
              Some c \<Rightarrow> Inr c
            | None \<Rightarrow>
                try_except base_errors
                  (then_do (getitem entry_data CONF_USERNAME) (\<lambda>username.
                   then_do (getitem entry_data CONF_PASSWORD) (\<lambda>password.
                   YaleSmartAlarmClient api username password)))) of
        Inl e \<Rightarrow> (Inl e, yale)
      | Inr c \<Rightarrow>
          (try_except base_errors
             (then_do (get_armed_status api c) (\<lambda>arm_status'.
              then_do (get_all api c) (\<lambda>data.
              then_do (section_of (CYCLE data)) (\<lambda>cycle'.
              then_do (section_of (HISTORY data)) (\<lambda>history'.
              then_do (section_of (STATUS data)) (\<lambda>status'.
              then_do (section_of (ONLINE data)) (\<lambda>online'.
              then_do (section_of (PANEL_INFO data)) (\<lambda>panel_info'.
              then_do (section_of (AUTH_CHECK data)) (\<lambda>auth_check.
              then_do (getitem auth_check ''token_time'') (\<lambda>token_time.
              then_do (py_strptime B token_time ''%Y-%m-%d %H:%M:%S'') (\<lambda>update_timestamp'.
              Inr \<lparr>arm_status = arm_status',
                   cycle = cycle',
                   status = status',
                   online = online',
                   panel_info = panel_info',
                   history = history',
                   update_timestamp = update_timestamp'\<rparr>))))))))))),
           Some c))"

text \<open>
  \<^verbatim>\<open>_async_update_data\<close>, the refresh cycle: the fetch, then the normalizer. What it
  raises or returns, and the session after it.
\<close>

definition async_update_data ::
  "'f builtins \<Rightarrow> (error \<Rightarrow> bool) \<Rightarrow> json \<Rightarrow> json \<Rightarrow> ('c, 'f, 'a) yale_api \<Rightarrow>
     (string \<rightharpoonup> json) \<Rightarrow> 'c option \<Rightarrow> (error + ('f, 'a) snapshot) \<times> 'c option" where
  "async_update_data B base_errors smoke_on smoke_off api entry_data yale =
     (case get_updates B base_errors api entry_data yale of
        (Inl e, yale') \<Rightarrow> (Inl e, yale')
      | (Inr updates, yale') \<Rightarrow>
          (then_do (normalize B smoke_on smoke_off updates) (\<lambda>(snapshot, updates').
           Inr snapshot), yale'))"

section \<open>Built-ins for the examples\<close>

text \<open>
  The theorems below hold for every \<open>py_float\<close> and every \<open>strptime\<close>. The examples
  need values for them. \<open>fixed_strptime\<close> reads the fixed-width time stamps the
  service sends (\<^verbatim>\<open>2024/03/01 12:00:00\<close>, and with dashes for the token time) and
  rejects anything else; CPython also reads fields written without their leading zero.
\<close>

definition digit_value :: "char \<Rightarrow> nat option" where
  "digit_value c =
     (let n = (of_char c :: nat) in if 48 \<le> n \<and> n \<le> 57 then Some (n - 48) else None)"

fun number :: "string \<Rightarrow> nat option" where
  "number [] = None"
| "number cs =
     (if list_all (\<lambda>c. digit_value c \<noteq> None) cs
      then Some (foldl (\<lambda>a c. 10 * a + the (digit_value c)) 0 cs) else None)"

definition is_leap :: "nat \<Rightarrow> bool" where
  "is_leap y = (y mod 4 = 0 \<and> (y mod 100 \<noteq> 0 \<or> y mod 400 = 0))"

definition days_in_month :: "nat \<Rightarrow> nat \<Rightarrow> nat" where
  "days_in_month y m =
     (if m = 2 then (if is_leap y then 29 else 28)
      else if m = 4 \<or> m = 6 \<or> m = 9 \<or> m = 11 then 30 else 31)"

definition days_before_year :: "nat \<Rightarrow> nat" where
  "days_before_year y = 365 * (y - 1) + (y - 1) div 4 - (y - 1) div 100 + (y - 1) div 400"

definition days_before_month :: "nat \<Rightarrow> nat \<Rightarrow> nat" where
  "days_before_month y m = sum_list (map (days_in_month y) [1..<m])"

definition date_separator :: "string \<Rightarrow> char option" where
  "date_separator fmt =
     (if fmt = ''%Y/%m/%d %H:%M:%S'' then Some (CHR ''/'')
      else if fmt = ''%Y-%m-%d %H:%M:%S'' then Some (CHR ''-'')
      else None)"

definition fixed_strptime :: "string \<Rightarrow> string \<Rightarrow> error + int" where
  "fixed_strptime s fmt =
     (case date_separator fmt of
        None \<Rightarrow> Inl ValueError
      | Some sep \<Rightarrow>
          if length s = 19 \<and> s ! 4 = sep \<and> s ! 7 = sep \<and> s ! 10 = CHR '' ''
             \<and> s ! 13 = CHR '':'' \<and> s ! 16 = CHR '':''
          then
            (case (number (take 4 s), number (take 2 (drop 5 s)), number (take 2 (drop 8 s)),
                   number (take 2 (drop 11 s)), number (take 2 (drop 14 s)),
                   number (take 2 (drop 17 s))) of
               (Some y, Some m, Some d, Some hh, Some mm, Some ss) \<Rightarrow>
                 if 1 \<le> y \<and> 1 \<le> m \<and> m \<le> 12 \<and> 1 \<le> d \<and> d \<le> days_in_month y m
                    \<and> hh \<le> 23 \<and> mm \<le> 59 \<and> ss \<le> 59
                 then Inr (int ((days_before_year y + days_before_month y m + (d - 1)) * 86400
                                + hh * 3600 + mm * 60 + ss))
                 else Inl ValueError
             | _ \<Rightarrow> Inl ValueError)
          else Inl ValueError)"

text \<open>
  \<open>literal_float\<close> decides whether \<^verbatim>\<open>float(x)\<close> returns, by the grammar of the
  language reference, and stands for the double by the value it was read from.
\<close>

definition is_digit :: "char \<Rightarrow> bool" where
  "is_digit c = (digit_value c \<noteq> None)"

fun after_digit :: "string \<Rightarrow> string" where
  "after_digit (c # d # cs) =
     (if is_digit c then after_digit (d # cs)
      else if c = CHR ''_'' \<and> is_digit d then after_digit cs
      else c # d # cs)"
| "after_digit [c] = (if is_digit c then [] else [c])"
| "after_digit [] = []"

definition digitpart :: "string \<Rightarrow> string option" where
  "digitpart s = (case s of c # cs \<Rightarrow> if is_digit c then Some (after_digit cs) else None | [] \<Rightarrow> None)"

definition float_number :: "string \<Rightarrow> bool" where
  "float_number s =
     (let (had1, r1) = (case digitpart s of Some r \<Rightarrow> (True, r) | None \<Rightarrow> (False, s));
          (ok, r2) =
            (case r1 of
               c # cs \<Rightarrow>
                 if c = CHR ''.'' then
                   (case digitpart cs of Some r \<Rightarrow> (True, r) | None \<Rightarrow> (had1, cs))
                 else (had1, r1)
             | [] \<Rightarrow> (had1, r1))
      in ok \<and>
         (case r2 of
            [] \<Rightarrow> True
          | c # cs \<Rightarrow>
              (c = CHR ''e'' \<or> c = CHR ''E'') \<and> digitpart (skip_sign cs) = Some []))"

definition lower :: "char \<Rightarrow> char" where
  "lower c = (let n = (of_char c :: nat) in if 65 \<le> n \<and> n \<le> 90 then char_of (n + 32) else c)"

definition strip :: "string \<Rightarrow> string" where
  "strip s = rev (dropWhile is_space (rev (dropWhile is_space s)))"

definition float_literal :: "string \<Rightarrow> bool" where
  "float_literal s =
     (let u = skip_sign (strip s); l = map lower u
      in l = ''inf'' \<or> l = ''infinity'' \<or> l = ''nan'' \<or> float_number u)"

fun literal_float :: "json \<Rightarrow> error + json" where
  "literal_float JNone = Inl TypeError"
| "literal_float (JBool b) = Inr (JInt (if b then 1 else 0))"
| "literal_float (JInt i) =
     (if \<bar>i\<bar> < 2 ^ 1024 - 2 ^ 970 then Inr (JInt i) else Inl OverflowError)"
| "literal_float (JStr s) = (if float_literal s then Inr (JStr (strip s)) else Inl ValueError)"

definition example_builtins :: "json builtins" where
  "example_builtins = \<lparr>py_float = literal_float, strptime = fixed_strptime\<rparr>"

section \<open>The specification's words\<close>








text \<open>The state of a door or window contact as the specification writes it.\<close>

definition contact_state :: "string \<Rightarrow> string" where
  "contact_state s =
     (if str_contains ''device_status.dc_close'' s then ''closed''
      else if str_contains ''device_status.dc_open'' s then ''open''
      else ''unavailable'')"

text \<open>
  The history scan as the specification words it. An entry is decisive when it is
  within the window (not older than the accepted time stamp), matches the device's
  type and area compared as strings, and has the on or the off code as its event
  type, compared as a string. The scan is active when the first decisive entry has
  the on code.
\<close>

definition entry_time :: "'f builtins \<Rightarrow> hist_item \<Rightarrow> int option" where
  "entry_time B h =
     (case h ''time'' of
        Some (JStr t) \<Rightarrow>
          (case strptime B t ''%Y/%m/%d %H:%M:%S'' of Inr x \<Rightarrow> Some x | Inl e \<Rightarrow> None)
      | _ \<Rightarrow> None)"

definition in_window :: "'f builtins \<Rightarrow> int \<Rightarrow> hist_item \<Rightarrow> bool" where
  "in_window B accepted h = (case entry_time B h of Some x \<Rightarrow> accepted \<le> x | None \<Rightarrow> False)"

definition same_as_string :: "json option \<Rightarrow> json option \<Rightarrow> bool" where
  "same_as_string a b =
     (case (a, b) of (Some x, Some y) \<Rightarrow> py_str x = py_str y | _ \<Rightarrow> False)"

definition matches_device :: "'f device \<Rightarrow> hist_item \<Rightarrow> bool" where
  "matches_device device h =
     (same_as_string (h ''type'') (d_fields device ''type'')
      \<and> same_as_string (h ''area'') (d_fields device ''area''))"

definition has_event :: "json \<Rightarrow> hist_item \<Rightarrow> bool" where
  "has_event code h =
     (case h ''event_type'' of Some ev \<Rightarrow> code = JStr (py_str ev) | None \<Rightarrow> False)"

definition decisive :: "'f builtins \<Rightarrow> 'f device \<Rightarrow> json \<Rightarrow> json \<Rightarrow> int \<Rightarrow> hist_item \<Rightarrow> bool" where
  "decisive B device on_code off_code accepted h =
     (in_window B accepted h \<and> matches_device device h
      \<and> (has_event on_code h \<or> has_event off_code h))"

definition scan_result ::
  "'f builtins \<Rightarrow> 'f device \<Rightarrow> json \<Rightarrow> json \<Rightarrow> int \<Rightarrow> hist_item list \<Rightarrow> bool" where
  "scan_result B device on_code off_code accepted hs =
     (case find (decisive B device on_code off_code accepted) hs of
        Some h \<Rightarrow> has_event on_code h
      | None \<Rightarrow> False)"

text \<open>
  A history entry as the data model has it: a time stamp that parses, a type, an area
  and an event type. A log ordered newest-first.
\<close>

definition entry_ok :: "'f builtins \<Rightarrow> hist_item \<Rightarrow> bool" where
  "entry_ok B h =
     (entry_time B h \<noteq> None \<and> h ''type'' \<noteq> None \<and> h ''area'' \<noteq> None \<and> h ''event_type'' \<noteq> None)"

definition newest_first :: "'f builtins \<Rightarrow> hist_item list \<Rightarrow> bool" where
  "newest_first B hs = sorted_wrt (\<lambda>h h'. the (entry_time B h') \<le> the (entry_time B h)) hs"

text \<open>The type tags, the list a device goes to by its tag, and the keys of a dict.\<close>

definition has_type :: "string \<Rightarrow> 'f device \<Rightarrow> bool" where
  "has_type t device = (d_fields device ''type'' = Some (JStr t))"

definition recognized :: "'f device \<Rightarrow> bool" where
  "recognized device =
     (has_type ''device_type.door_lock'' device \<or> has_type ''device_type.door_contact'' device
      \<or> has_type ''device_type.temperature_sensor'' device
      \<or> has_type ''device_type.smoke_detector'' device)"

definition place :: "'f device \<Rightarrow> 'f lists \<Rightarrow> 'f lists" where
  "place device acc =
     (if has_type ''device_type.door_lock'' device then snd (append_lock device acc)
      else if has_type ''device_type.door_contact'' device then snd (append_door_window device acc)
      else if has_type ''device_type.temperature_sensor'' device then
        snd (append_temperature device acc)
      else if has_type ''device_type.smoke_detector'' device then snd (append_smoke device acc)
      else acc)"

definition dict_keys :: "'v pydict \<Rightarrow> json list" where
  "dict_keys m = map fst m"

definition address_of :: "'f device \<Rightarrow> json option" where
  "address_of device = d_fields device ''address''"

text \<open>
  What the normalizer may change of a device record: the key \<^verbatim>\<open>_state\<close>, and for a
  lock the key \<^verbatim>\<open>_state2\<close>.
\<close>

definition frame :: "'f device \<Rightarrow> 'f device \<Rightarrow> bool" where
  "frame device device' =
     (d_fields device' = d_fields device
      \<and> (has_type ''device_type.door_lock'' device \<or> d_state2 device' = d_state2 device))"

text \<open>
  Modelled from the spec: the tuple \<^verbatim>\<open>YALE_BASE_ERRORS\<close> of \<^verbatim>\<open>const.py\<close>, which
  is not among the sources. The specification's transient failure is any client or
  network error other than the authentication failure.
\<close>

definition YALE_BASE_ERRORS :: "error \<Rightarrow> bool" where
  "YALE_BASE_ERRORS e = (case e of ClientError name \<Rightarrow> True | _ \<Rightarrow> False)"

section \<open>Example data\<close>

text \<open>
  A bundle of five devices (a lock, a contact, a thermometer, a smoke detector and a
  keypad, whose type the normalizer does not know) and a history of two smoke events,
  fetched at 2024-03-01 12:00:00. The event codes are sample values.
\<close>

definition example_on :: json where
  "example_on = JStr ''1111''"

definition example_off :: json where
  "example_off = JStr ''3111''"

definition example_lock :: "json device" where
  "example_lock =
     \<lparr>d_fields = map_of
        [(''type'', JStr ''device_type.door_lock''), (''area'', JStr ''1''),
         (''address'', JStr ''RF:0001''), (''status1'', JStr ''device_status.lock''),
         (''minigw_lock_status'', JStr ''11'')],
      d_state = None, d_state2 = None\<rparr>"

definition example_contact :: "json device" where
  "example_contact =
     \<lparr>d_fields = map_of
        [(''type'', JStr ''device_type.door_contact''), (''area'', JStr ''1''),
         (''address'', JStr ''RF:0002''), (''status1'', JStr ''device_status.dc_open'')],
      d_state = None, d_state2 = None\<rparr>"

definition example_thermometer :: "json device" where
  "example_thermometer =
     \<lparr>d_fields = map_of
        [(''type'', JStr ''device_type.temperature_sensor''), (''area'', JStr ''1''),
         (''address'', JStr ''RF:0003''), (''status1'', JStr []),
         (''status_temp'', JStr ''21.5'')],
      d_state = None, d_state2 = None\<rparr>"

definition example_smoke :: "json device" where
  "example_smoke =
     \<lparr>d_fields = map_of
        [(''type'', JStr ''device_type.smoke_detector''), (''area'', JStr ''2''),
         (''address'', JStr ''RF:0004''), (''status1'', JStr [])],
      d_state = None, d_state2 = None\<rparr>"

definition example_keypad :: "json device" where
  "example_keypad =
     \<lparr>d_fields = map_of
        [(''type'', JStr ''device_type.keypad''), (''area'', JStr ''1''),
         (''address'', JStr ''RF:0005''), (''status1'', JStr [])],
      d_state = None, d_state2 = None\<rparr>"

definition example_devices :: "json device list" where
  "example_devices =
     [example_lock, example_contact, example_thermometer, example_smoke, example_keypad]"

definition smoke_event :: "string \<Rightarrow> json \<Rightarrow> hist_item" where
  "smoke_event t code =
     map_of [(''time'', JStr t), (''type'', JStr ''device_type.smoke_detector''),
             (''area'', JInt 2), (''event_type'', code)]"

definition area_event :: "string \<Rightarrow> json \<Rightarrow> json \<Rightarrow> hist_item" where
  "area_event t area code =
     map_of [(''time'', JStr t), (''type'', JStr ''device_type.smoke_detector''),
             (''area'', area), (''event_type'', code)]"

definition example_history :: "hist_item list" where
  "example_history =
     [smoke_event ''2024/03/01 11:59:00'' example_on,
      smoke_event ''2024/03/01 11:58:00'' example_off]"

definition example_cycle :: "json device list \<Rightarrow> string \<rightharpoonup> json device list" where
  "example_cycle devices = map_of [(''device_status'', devices)]"

definition example_updates :: "(json, json) updates" where
  "example_updates =
     \<lparr>arm_status = JStr ''disarm'',
      cycle = example_cycle example_devices,
      status = JStr ''ok'',
      online = JBool True,
      panel_info = JNone,
      history = example_history,
      update_timestamp = 63844891200\<rparr>"

text \<open>
  The service on four days: a good one, one on which a thermometer has no reading,
  one on which the authentication check comes without its token time, and one on
  which the credentials are rejected.
\<close>

definition example_data ::
  "json device list \<Rightarrow> (string \<times> json) list \<Rightarrow> (json, json) data" where
  "example_data devices auth_check =
     \<lparr>CYCLE = Some (example_cycle devices),
      HISTORY = Some example_history,
      STATUS = Some (JStr ''ok''),
      ONLINE = Some (JBool True),
      PANEL_INFO = Some JNone,
      AUTH_CHECK = Some (map_of auth_check)\<rparr>"

definition example_api :: "(unit, json, json) yale_api" where
  "example_api =
     \<lparr>YaleSmartAlarmClient = (\<lambda>username password. Inr ()),
      get_armed_status = (\<lambda>c. Inr (JStr ''disarm'')),
      get_all = (\<lambda>c. Inr (example_data example_devices
                              [(''token_time'', JStr ''2024-03-01 12:00:00'')]))\<rparr>"

definition broken_thermometer :: "json device" where
  "broken_thermometer =
     \<lparr>d_fields = map_of
        [(''type'', JStr ''device_type.temperature_sensor''), (''area'', JStr ''1''),
         (''address'', JStr ''RF:0003''), (''status1'', JStr []),
         (''status_temp'', JStr ''n/a'')],
      d_state = None, d_state2 = None\<rparr>"

definition thermometer_api :: "(unit, json, json) yale_api" where
  "thermometer_api =
     example_api\<lparr>get_all := (\<lambda>c. Inr (example_data [example_lock, broken_thermometer]
                                          [(''token_time'', JStr ''2024-03-01 12:00:00'')]))\<rparr>"

definition no_token_time_api :: "(unit, json, json) yale_api" where
  "no_token_time_api =
     example_api\<lparr>get_all := (\<lambda>c. Inr (example_data example_devices [(''result'', JBool False)]))\<rparr>"

definition rejecting_api :: "(unit, json, json) yale_api" where
  "rejecting_api =
     example_api\<lparr>YaleSmartAlarmClient := (\<lambda>username password. Inl AuthenticationError)\<rparr>"

definition example_entry :: "string \<rightharpoonup> json" where
  "example_entry =
     map_of [(''username'', JStr ''user@example.org''), (''password'', JStr ''secret'')]"

section \<open>Basic facts\<close>

lemma then_do_Inl [simp]: "then_do (Inl e) f = Inl e"
  by (simp add: then_do_def)

lemma then_do_Inr [simp]: "then_do (Inr x) f = f x"
  by (simp add: then_do_def)

lemma then_do_eq_Inr:
  "(then_do m f = Inr y) = (\<exists>x. m = Inr x \<and> f x = Inr y)"
  by (cases m) auto

lemma getitem_Some [simp]: "d k = Some v \<Longrightarrow> getitem d k = Inr v"
  by (simp add: getitem_def)

lemma getitem_None [simp]: "d k = None \<Longrightarrow> getitem d k = Inl KeyError"
  by (simp add: getitem_def)

lemma getitem_eq_Inr [simp]: "(getitem d k = Inr v) = (d k = Some v)"
  by (simp add: getitem_def split: option.splits)

lemma py_eq_JStr [simp]: "py_eq v (JStr t) = (v = JStr t)"
  by (cases v) auto

lemma py_eq_JStr_left [simp]: "py_eq (JStr t) v = (v = JStr t)"
  by (cases v) auto

lemma str_contains_sublist: "str_contains n h = sublist n h"
  by (induction h) (auto simp: sublist_Cons_right)




subsection \<open>Reading a hexadecimal number\<close>








section \<open>The lock and the contact\<close>





text \<open>
  C8. For a door or window contact whose status flags are a string, the pass of the
  loop assigns \<^verbatim>\<open>closed\<close> to \<^verbatim>\<open>_state\<close> when the flags contain the closed marker,
  \<^verbatim>\<open>open\<close> when they contain the open marker and not the closed one, and
  \<^verbatim>\<open>unavailable\<close> when they contain neither, and appends the device to the contacts.
\<close>

theorem door_contact_state:
  assumes "d_fields device ''type'' = Some (JStr ''device_type.door_contact'')"
    and "d_fields device ''status1'' = Some (JStr s)"
  shows "\<exists>st. loop_body B smoke_on smoke_off updates device acc =
                 Inr (append_door_window (device\<lparr>d_state := Some (Str st)\<rparr>) acc)
              \<and> (str_contains ''device_status.dc_close'' s \<longrightarrow> st = ''closed'')
              \<and> (\<not> str_contains ''device_status.dc_close'' s
                    \<and> str_contains ''device_status.dc_open'' s \<longrightarrow> st = ''open'')
              \<and> (\<not> str_contains ''device_status.dc_close'' s
                    \<and> \<not> str_contains ''device_status.dc_open'' s \<longrightarrow> st = ''unavailable'')"
  using assms by (simp add: loop_body_def door_contact_def)

theorem door_contact_state_witness:
  "d_fields example_contact ''type'' = Some (JStr ''device_type.door_contact'')
   \<and> d_fields example_contact ''status1'' = Some (JStr ''device_status.dc_open'')
   \<and> \<not> str_contains ''device_status.dc_close'' ''device_status.dc_open''
   \<and> str_contains ''device_status.dc_open'' ''device_status.dc_open''
   \<and> loop_body example_builtins example_on example_off example_updates example_contact
         ([], [], [], []) =
       Inr (append_door_window (example_contact\<lparr>d_state := Some (Str ''open'')\<rparr>)
         ([], [], [], []))"
proof -
  have h1: "d_fields example_contact ''type'' = Some (JStr ''device_type.door_contact'')"
    by (simp add: example_contact_def)
  have h2: "d_fields example_contact ''status1'' = Some (JStr ''device_status.dc_open'')"
    by (simp add: example_contact_def)
  have h3: "\<not> str_contains ''device_status.dc_close'' ''device_status.dc_open''"
    by simp
  have h4: "str_contains ''device_status.dc_open'' ''device_status.dc_open''"
    by simp
  from door_contact_state[OF h1 h2, of example_builtins example_on example_off
      example_updates "([], [], [], [])"] h3 h4
  show ?thesis using h1 h2 by auto
qed

section \<open>The history scan\<close>

lemma str_nat_nonempty: "str_nat n \<noteq> []"
  by (subst str_nat.simps) simp

lemma last_str_nat: "last (str_nat n) = digit_char (n mod 10)"
  by (subst str_nat.simps) (simp add: str_nat_nonempty)

lemma last_str_int: "last (str_int i) = digit_char (nat \<bar>i\<bar> mod 10)"
  by (simp add: str_int_def last_str_nat str_nat_nonempty)

lemma digit_char_less: "k < 10 \<Longrightarrow> of_char (digit_char k) = 48 + k"
  by (simp add: digit_char_def)

lemma str_int_not_smoke: "str_int i \<noteq> ''device_type.smoke_detector''"
proof
  assume "str_int i = ''device_type.smoke_detector''"
  then have "last (str_int i) = CHR ''r''" by simp
  then have "digit_char (nat \<bar>i\<bar> mod 10) = CHR ''r''" by (simp add: last_str_int)
  then have "(of_char (digit_char (nat \<bar>i\<bar> mod 10)) :: nat) = of_char (CHR ''r'')" by simp
  then show False by (simp add: digit_char_less)
qed

lemma py_str_smoke:
  "(py_str v = ''device_type.smoke_detector'') = (v = JStr ''device_type.smoke_detector'')"
  by (cases v) (auto simp: str_int_not_smoke)

lemma entry_okD:
  assumes "entry_ok B h"
  obtains t x ht ha ev where "h ''time'' = Some (JStr t)"
    and "strptime B t ''%Y/%m/%d %H:%M:%S'' = Inr x" and "entry_time B h = Some x"
    and "h ''type'' = Some ht" and "h ''area'' = Some ha" and "h ''event_type'' = Some ev"
  using assms
  by (auto simp: entry_ok_def entry_time_def split: option.splits json.splits sum.splits)

lemma history_body_entry:
  assumes "h ''time'' = Some (JStr t)" and "strptime B t ''%Y/%m/%d %H:%M:%S'' = Inr x"
    and "h ''type'' = Some ht" and "h ''area'' = Some ha" and "h ''event_type'' = Some ev"
    and "d_fields device ''type'' = Some dt" and "d_fields device ''area'' = Some da"
  shows "history_body B device on_code off_code accepted h =
           Inr (if x < accepted then Break False
                else if \<not> py_eq ht dt then Continue
                else if py_str ha \<noteq> py_str da then Continue
                else if has_event off_code h then Break False
                else if has_event on_code h then Break True
                else Continue)"
  using assms by (auto simp: history_body_def py_strptime_def has_event_def)

lemma scan_result_Cons:
  "scan_result B device on_code off_code accepted (h # hs) =
     (if decisive B device on_code off_code accepted h then has_event on_code h
      else scan_result B device on_code off_code accepted hs)"
  by (simp add: scan_result_def)

lemma scan_result_none:
  "\<forall>h\<in>set hs. \<not> in_window B accepted h \<Longrightarrow>
     scan_result B device on_code off_code accepted hs = False"
  by (induction hs) (auto simp: scan_result_Cons decisive_def scan_result_def)

lemma history_loop_scan:
  assumes "d_fields device ''type'' = Some (JStr ''device_type.smoke_detector'')"
    and "d_fields device ''area'' = Some a"
    and "on_code \<noteq> off_code"
  shows "list_all (entry_ok B) hs \<Longrightarrow> newest_first B hs \<Longrightarrow>
           history_loop B device on_code off_code accepted hs =
             Inr (scan_result B device on_code off_code accepted hs)"
proof (induction hs)
  case Nil
  show ?case by (simp add: scan_result_def)
next
  case (Cons h hs)
  from Cons.prems(1) have ok: "entry_ok B h" and oks: "list_all (entry_ok B) hs" by simp_all
  from Cons.prems(2) have later: "\<forall>h'\<in>set hs. the (entry_time B h') \<le> the (entry_time B h)"
    and sorted: "newest_first B hs" by (simp_all add: newest_first_def)
  from ok obtain t x ht ha ev where h: "h ''time'' = Some (JStr t)"
    "strptime B t ''%Y/%m/%d %H:%M:%S'' = Inr x" "entry_time B h = Some x"
    "h ''type'' = Some ht" "h ''area'' = Some ha" "h ''event_type'' = Some ev"
    by (rule entry_okD)
  note body = history_body_entry[OF h(1,2,4,5,6) assms(1,2), of on_code off_code accepted]
  note IH = Cons.IH[OF oks sorted]
  have win: "in_window B accepted h = (\<not> x < accepted)"
    by (auto simp: in_window_def h(3))
  have mat: "matches_device device h =
      (py_eq ht (JStr ''device_type.smoke_detector'') \<and> py_str ha = py_str a)"
    by (auto simp: matches_device_def same_as_string_def h assms py_str_smoke)
  show ?case
  proof (cases "x < accepted")
    case True
    have "\<forall>h'\<in>set (h # hs). \<not> in_window B accepted h'"
    proof
      fix h' assume "h' \<in> set (h # hs)"
      then have le: "the (entry_time B h') \<le> x" using later h(3) by auto
      have "entry_ok B h'" using \<open>h' \<in> set (h # hs)\<close> Cons.prems(1) by (auto simp: list_all_iff)
      then obtain y where "entry_time B h' = Some y" by (auto elim: entry_okD)
      then show "\<not> in_window B accepted h'" using le True by (simp add: in_window_def)
    qed
    then have "scan_result B device on_code off_code accepted (h # hs) = False"
      by (rule scan_result_none)
    then show ?thesis using True by (simp add: body)
  next
    case False
    then show ?thesis
      using IH assms(3)
      by (auto simp: body scan_result_Cons decisive_def win mat has_event_def h(6))
  qed
qed

text \<open>
  C2. For a smoke detector, a history whose entries have a time stamp that parses, a
  type, an area and an event type and that is ordered newest-first, a reference time
  and a window: the scan returns whether the first entry that is within the window,
  matches the type and the area of the device compared as strings and has the on or
  the off code as its event type has the on code; it is inactive when that entry has
  the off code and when there is no such entry, as in an empty history or when the
  scan reaches an entry older than the window first. The two codes differ.
\<close>

theorem history_scan_first_decisive:
  assumes "d_fields device ''type'' = Some (JStr ''device_type.smoke_detector'')"
    and "d_fields device ''area'' = Some a"
    and "list_all (entry_ok B) (history updates)"
    and "newest_first B (history updates)"
    and "datetime_sub_minutes (update_timestamp updates) minutes = Inr accepted"
    and "on_code \<noteq> off_code"
  shows "accepted = update_timestamp updates - 60 * minutes
         \<and> device_on_in_updates_history B device updates on_code off_code minutes =
             Inr (scan_result B device on_code off_code accepted (history updates))"
proof
  show "accepted = update_timestamp updates - 60 * minutes"
    using assms(5) by (auto simp: datetime_sub_minutes_def Let_def split: if_splits)
  show "device_on_in_updates_history B device updates on_code off_code minutes =
          Inr (scan_result B device on_code off_code accepted (history updates))"
    using history_loop_scan[OF assms(1,2,6,3,4), of accepted] assms(5)
    by (simp add: device_on_in_updates_history_def)
qed
lemma example_times:
  "fixed_strptime ''2024/03/01 11:59:00'' ''%Y/%m/%d %H:%M:%S'' = Inr 63844891140"
  "fixed_strptime ''2024/03/01 11:58:00'' ''%Y/%m/%d %H:%M:%S'' = Inr 63844891080"
  "fixed_strptime ''2024/03/01 11:57:00'' ''%Y/%m/%d %H:%M:%S'' = Inr 63844891020"
  "fixed_strptime ''2024-03-01 12:00:00'' ''%Y-%m-%d %H:%M:%S'' = Inr 63844891200"
  by (simp_all add: fixed_strptime_def date_separator_def digit_value_def
      days_before_year_def days_before_month_def days_in_month_def is_leap_def upt_rec)

lemma example_entry_times:
  "entry_time example_builtins (smoke_event ''2024/03/01 11:59:00'' code) = Some 63844891140"
  "entry_time example_builtins (smoke_event ''2024/03/01 11:58:00'' code) = Some 63844891080"
  "entry_time example_builtins (smoke_event ''2024/03/01 11:57:00'' code) = Some 63844891020"
  by (simp_all add: entry_time_def smoke_event_def example_builtins_def example_times)

lemma str_int_2: "str_int 2 = ''2''"
  by code_simp

theorem history_scan_first_decisive_witness:
  "d_fields example_smoke ''type'' = Some (JStr ''device_type.smoke_detector'')
   \<and> d_fields example_smoke ''area'' = Some (JStr ''2'')
   \<and> list_all (entry_ok example_builtins) (history example_updates)
   \<and> newest_first example_builtins (history example_updates)
   \<and> datetime_sub_minutes (update_timestamp example_updates) 3 = Inr 63844891020
   \<and> example_on \<noteq> example_off
   \<and> scan_result example_builtins example_smoke example_on example_off 63844891020
        (history example_updates)
   \<and> device_on_in_updates_history example_builtins example_smoke example_updates
        example_on example_off 3 = Inr True"
proof -
  have h1: "d_fields example_smoke ''type'' = Some (JStr ''device_type.smoke_detector'')"
    by (simp add: example_smoke_def)
  have h2: "d_fields example_smoke ''area'' = Some (JStr ''2'')"
    by (simp add: example_smoke_def)
  have h3: "list_all (entry_ok example_builtins) (history example_updates)"
    by (simp add: example_updates_def example_history_def entry_ok_def example_entry_times)
      (simp add: smoke_event_def)
  have h4: "newest_first example_builtins (history example_updates)"
    by (simp add: example_updates_def example_history_def newest_first_def example_entry_times)
  have h5: "datetime_sub_minutes (update_timestamp example_updates) 3 = Inr 63844891020"
    by (simp add: datetime_sub_minutes_def datetime_max_def example_updates_def)
  have h6: "example_on \<noteq> example_off"
    by (simp add: example_on_def example_off_def)
  have h7: "scan_result example_builtins example_smoke example_on example_off 63844891020
        (history example_updates)"
    by (simp add: example_updates_def example_history_def scan_result_def decisive_def
        in_window_def example_entry_times)
      (simp add: matches_device_def same_as_string_def has_event_def smoke_event_def
        example_smoke_def example_on_def str_int_2)
  from history_scan_first_decisive[OF h1 h2 h3 h4 h5 h6] h7
  have "device_on_in_updates_history example_builtins example_smoke example_updates
        example_on example_off 3 = Inr True"
    by simp
  then show ?thesis using h1 h2 h3 h4 h5 h6 h7 by simp
qed

lemma history_loop_continue:
  "list_all (\<lambda>p. history_body B device on_code off_code accepted p = Inr Continue) pre \<Longrightarrow>
     history_loop B device on_code off_code accepted (pre @ hs) =
       history_loop B device on_code off_code accepted hs"
  by (induction pre) simp_all

text \<open>
  C10. The window includes its boundary. A history entry whose time stamp is exactly
  the reference time minus the window does not stop the scan at the window check: the
  pass over it goes on to compare the type and the area, and the entry, when it matches
  the device, decides by its event type. So wherever such an entry stands in the log,
  once the scan has reached it (every pass before it went on to the next entry), the
  scan is inactive when the entry matches and has the off code, active when it matches
  and has the on code and not the off code, and otherwise goes on with the entries
  after it.
\<close>

theorem window_boundary_inclusive:
  assumes "datetime_sub_minutes (update_timestamp updates) minutes = Inr accepted"
    and "h ''time'' = Some (JStr t)"
    and "strptime B t ''%Y/%m/%d %H:%M:%S'' = Inr (update_timestamp updates - 60 * minutes)"
    and "h ''type'' = Some ht" and "h ''area'' = Some ha" and "h ''event_type'' = Some ev"
    and "d_fields device ''type'' = Some dt" and "d_fields device ''area'' = Some da"
  shows "history_body B device on_code off_code accepted h =
           Inr (if \<not> py_eq ht dt \<or> py_str ha \<noteq> py_str da then Continue
                else if has_event off_code h then Break False
                else if has_event on_code h then Break True
                else Continue)
         \<and> (\<forall>pre rest.
               history updates = pre @ h # rest
               \<and> list_all (\<lambda>p. history_body B device on_code off_code accepted p = Inr Continue) pre
               \<longrightarrow>
               device_on_in_updates_history B device updates on_code off_code minutes =
                 (if \<not> py_eq ht dt \<or> py_str ha \<noteq> py_str da then
                    history_loop B device on_code off_code accepted rest
                  else if has_event off_code h then Inr False
                  else if has_event on_code h then Inr True
                  else history_loop B device on_code off_code accepted rest))"
proof -
  have acc: "accepted = update_timestamp updates - 60 * minutes"
    using assms(1) by (auto simp: datetime_sub_minutes_def Let_def split: if_splits)
  have body: "history_body B device on_code off_code accepted h =
          Inr (if \<not> py_eq ht dt \<or> py_str ha \<noteq> py_str da then Continue
               else if has_event off_code h then Break False
               else if has_event on_code h then Break True
               else Continue)"
    using history_body_entry[OF assms(2,3,4,5,6,7,8), of on_code off_code accepted] acc
    by simp
  show ?thesis
  proof (intro conjI allI impI)
    show "history_body B device on_code off_code accepted h =
          Inr (if \<not> py_eq ht dt \<or> py_str ha \<noteq> py_str da then Continue
               else if has_event off_code h then Break False
               else if has_event on_code h then Break True
               else Continue)"
      by (rule body)
  next
    fix pre rest
    assume a: "history updates = pre @ h # rest
      \<and> list_all (\<lambda>p. history_body B device on_code off_code accepted p = Inr Continue) pre"
    then have "history_loop B device on_code off_code accepted (history updates) =
        history_loop B device on_code off_code accepted (h # rest)"
      by (simp add: history_loop_continue)
    then show "device_on_in_updates_history B device updates on_code off_code minutes =
                 (if \<not> py_eq ht dt \<or> py_str ha \<noteq> py_str da then
                    history_loop B device on_code off_code accepted rest
                  else if has_event off_code h then Inr False
                  else if has_event on_code h then Inr True
                  else history_loop B device on_code off_code accepted rest)"
      using assms(1) body by (simp add: device_on_in_updates_history_def)
  qed
qed

theorem window_boundary_inclusive_witness:
  "datetime_sub_minutes (update_timestamp example_updates) 3 = Inr 63844891020
   \<and> strptime example_builtins ''2024/03/01 11:57:00'' ''%Y/%m/%d %H:%M:%S'' =
       Inr (update_timestamp example_updates - 60 * 3)
   \<and> d_fields example_smoke ''type'' = Some (JStr ''device_type.smoke_detector'')
   \<and> d_fields example_smoke ''area'' = Some (JStr ''2'')
   \<and> py_eq (JStr ''device_type.smoke_detector'') (JStr ''device_type.smoke_detector'')
   \<and> py_str (JInt 2) = py_str (JStr ''2'')
   \<and> has_event example_on (smoke_event ''2024/03/01 11:57:00'' example_on)
   \<and> \<not> has_event example_off (smoke_event ''2024/03/01 11:57:00'' example_on)
   \<and> history_body example_builtins example_smoke example_on example_off 63844891020
        (area_event ''2024/03/01 11:59:00'' (JStr ''7'') example_on) = Inr Continue
   \<and> history_body example_builtins example_smoke example_on example_off 63844891020
        (smoke_event ''2024/03/01 11:57:00'' example_on) = Inr (Break True)
   \<and> device_on_in_updates_history example_builtins example_smoke
        (example_updates\<lparr>history :=
           [area_event ''2024/03/01 11:59:00'' (JStr ''7'') example_on,
            smoke_event ''2024/03/01 11:57:00'' example_on]\<rparr>)
        example_on example_off 3 = Inr True"
proof -
  let ?p = "area_event ''2024/03/01 11:59:00'' (JStr ''7'') example_on"
  let ?h = "smoke_event ''2024/03/01 11:57:00'' example_on"
  let ?u = "example_updates\<lparr>history := [?p, ?h]\<rparr>"
  have h1: "datetime_sub_minutes (update_timestamp ?u) 3 = Inr 63844891020"
    by (simp add: datetime_sub_minutes_def datetime_max_def example_updates_def)
  have h2: "?h ''time'' = Some (JStr ''2024/03/01 11:57:00'')"
    by (simp add: smoke_event_def)
  have h3: "strptime example_builtins ''2024/03/01 11:57:00'' ''%Y/%m/%d %H:%M:%S'' =
      Inr (update_timestamp ?u - 60 * 3)"
    by (simp add: example_builtins_def example_times example_updates_def)
  have h4: "?h ''type'' = Some (JStr ''device_type.smoke_detector'')"
    by (simp add: smoke_event_def)
  have h5: "?h ''area'' = Some (JInt 2)"
    by (simp add: smoke_event_def)
  have h6: "?h ''event_type'' = Some example_on"
    by (simp add: smoke_event_def)
  have h7: "d_fields example_smoke ''type'' = Some (JStr ''device_type.smoke_detector'')"
    by (simp add: example_smoke_def)
  have h8: "d_fields example_smoke ''area'' = Some (JStr ''2'')"
    by (simp add: example_smoke_def)
  have eq: "py_eq (JStr ''device_type.smoke_detector'') (JStr ''device_type.smoke_detector'')"
    by simp
  have ar: "py_str (JInt 2) = py_str (JStr ''2'')"
    by (simp add: str_int_2)
  have on: "has_event example_on ?h"
    by (simp add: has_event_def smoke_event_def example_on_def)
  have off: "\<not> has_event example_off ?h"
    by (simp add: has_event_def smoke_event_def example_on_def example_off_def)
  have pt: "strptime example_builtins ''2024/03/01 11:59:00'' ''%Y/%m/%d %H:%M:%S'' =
      Inr 63844891140"
    by (simp add: example_builtins_def example_times)
  have p: "history_body example_builtins example_smoke example_on example_off 63844891020 ?p =
      Inr Continue"
    using history_body_entry[of ?p "''2024/03/01 11:59:00''" example_builtins 63844891140
        "JStr ''device_type.smoke_detector''" "JStr ''7''" example_on example_smoke
        "JStr ''device_type.smoke_detector''" "JStr ''2''" example_on example_off 63844891020]
      pt h7 h8
    by (simp add: area_event_def)
  have hist: "history ?u = [?p] @ ?h # []" by simp
  note t = window_boundary_inclusive[OF h1 h2 h3 h4 h5 h6 h7 h8, of example_on example_off]
  from t eq ar on off
  have b: "history_body example_builtins example_smoke example_on example_off 63844891020 ?h =
      Inr (Break True)"
    by simp
  note later = t[THEN conjunct2, THEN spec[where x = "[?p]"], THEN spec[where x = "[]"]]
  from later hist p eq ar on off
  have "device_on_in_updates_history example_builtins example_smoke ?u
          example_on example_off 3 = Inr True"
    by simp
  then show ?thesis using h1 h3 h7 h8 eq ar on off p b by simp
qed


end
